theory Spec2Isabelle
  imports Complex_Main "HOL-Library.Sublist"
begin

text \<open>
  The job store of the application: the provider of the job context (\<open>JobProvider\<close>
  with \<open>fetchJobs\<close>, \<open>loadMoreJobs\<close>, \<open>searchJobs\<close>, \<open>addJob\<close>, \<open>removeJob\<close>) and the
  expiry check of the application form (\<open>isExpiryNear\<close>), embedded as functions on the
  provider's state.
\<close>

section \<open>JavaScript values used by the job store\<close>

text \<open>
  A JavaScript number is either \<open>NaN\<close> or a finite value; finite doubles are modelled by
  the real numbers they denote (timestamps and salaries are far below the range where
  rounding matters; infinities do not occur in the data and are left out).
\<close>

datatype jsnum = NaN | Fin real

text \<open>
  A JavaScript string is its sequence of UTF-16 code units, each a natural number
  (below 65536 in JavaScript). \<open>str\<close> gives the code units of an ASCII literal of the
  source.
\<close>

type_synonym jsstring = "nat list"

definition str :: "string \<Rightarrow> jsstring" where
  "str s = map of_char s"

text \<open>
  The values a numeric field of a raw API record, or of a \<open>Job\<close>, can hold:
  \<open>undefined\<close> (the field is absent), \<open>null\<close>, a boolean, a number or a string.
\<close>

datatype jsval = JUndefined | JNull | JBool bool | JNum jsnum | JStr jsstring

text \<open>
  Library code outside the repository, taken as it is: \<open>uuid.v4()\<close> (the \<open>i\<close>-th
  identifier drawn during one call), the string case of JavaScript's \<open>Number(...)\<close>
  conversion, and \<open>String.prototype.toLowerCase\<close> (which lower-cases every cased
  Unicode letter and may change the length of a string).
\<close>

record runtime =
  uuid_v4 :: "nat \<Rightarrow> jsstring"
  StringToNumber :: "jsstring \<Rightarrow> jsnum"
  toLowerCase :: "jsstring \<Rightarrow> jsstring"

text \<open>\<open>Number(v)\<close>: \<open>undefined\<close> becomes \<open>NaN\<close>, \<open>null\<close> becomes \<open>0\<close>.\<close>

fun Number :: "runtime \<Rightarrow> jsval \<Rightarrow> jsnum" where
  "Number rt JUndefined = NaN"
| "Number rt JNull = Fin 0"
| "Number rt (JBool b) = Fin (if b then 1 else 0)"
| "Number rt (JNum n) = n"
| "Number rt (JStr s) = StringToNumber rt s"

text \<open>\<open>a ?? b\<close>: \<open>b\<close> only when \<open>a\<close> is \<open>null\<close> or \<open>undefined\<close>.\<close>

fun nullish :: "jsval \<Rightarrow> jsval \<Rightarrow> jsval" where
  "nullish JUndefined b = b"
| "nullish JNull b = b"
| "nullish a b = a"

text \<open>Truthiness of a value, as \<open>&&\<close> and \<open>? :\<close> test it.\<close>

fun truthy :: "jsval \<Rightarrow> bool" where
  "truthy JUndefined = False"
| "truthy JNull = False"
| "truthy (JBool b) = b"
| "truthy (JNum NaN) = False"
| "truthy (JNum (Fin x)) = (x \<noteq> 0)"
| "truthy (JStr s) = (s \<noteq> [])"

text \<open>
  \<open>field || dflt\<close> on a text field that is absent (\<open>None\<close>, also for \<open>null\<close>) or a
  string: the empty string is falsy.
\<close>

fun or_default :: "jsstring option \<Rightarrow> jsstring \<Rightarrow> jsstring" where
  "or_default None d = d"
| "or_default (Some s) d = (if s = [] then d else s)"

text \<open>
  \<open>includes_str s t\<close> is \<open>s.includes(t)\<close>: \<open>t\<close> occurs in \<open>s\<close> as a contiguous run of
  code units.
\<close>

fun includes_str :: "jsstring \<Rightarrow> jsstring \<Rightarrow> bool" where
  "includes_str [] t = (t = [])"
| "includes_str (x # xs) t = (prefix t (x # xs) \<or> includes_str xs t)"

section \<open>The data model of the job context\<close>

text \<open>The \<open>Job\<close> interface; \<open>job_id\<close> is its field \<open>id\<close>.\<close>

record Job =
  job_id :: jsstring
  title :: jsstring
  companyName :: jsstring
  mainCategory :: jsstring
  pubDate :: jsval
  expiryDate :: jsval
  companyLogo :: jsstring
  jobType :: jsstring
  workModel :: jsstring
  seniorityLevel :: jsstring
  minSalary :: jsval
  maxSalary :: jsval

text \<open>
  One element of \<open>response.data.jobs\<close>, typed \<open>any\<close> in the source: text fields are
  absent or strings, numeric fields are any scalar.
\<close>

record RawJob =
  raw_title :: "jsstring option"
  raw_mainCategory :: "jsstring option"
  raw_pubDate :: jsval
  raw_expiryDate :: jsval
  raw_companyName :: "jsstring option"
  raw_jobType :: "jsstring option"
  raw_workModel :: "jsstring option"
  raw_seniorityLevel :: "jsstring option"
  raw_minSalary :: jsval
  raw_maxSalary :: jsval
  raw_companyLogo :: "jsstring option"

text \<open>
  The six \<open>useState\<close> cells of \<open>JobProvider\<close>. A value of this record is both a state
  of the store and the scope of one render: the constants \<open>savedJobs\<close>, \<open>jobs\<close>, ...,
  \<open>page\<close> that the functions created by that render see.

  A function of the provider reads these names from the scope \<open>c\<close> of the render that
  created it, and they do not change while it runs, not even across an \<open>await\<close>. Its
  writes go through the setters to the live state \<open>s\<close>: a setter given a value
  overwrites the cell, a setter given a function applies it to the latest value of the
  cell, and the updates take effect in the order of the calls. So each function below
  takes \<open>c\<close> (when it reads a name) and \<open>s\<close>, and returns the state after its updates.
  A handler that the user interface calls from the render showing \<open>s\<close> runs with
  \<open>c = s\<close>.
\<close>

record JobProvider =
  savedJobs :: "Job list"
  jobs :: "Job list"
  filteredJobs :: "Job list"
  loading :: bool
  loadingMore :: bool
  page :: int

text \<open>The initial values given to \<open>useState\<close>: the scope of the first render.\<close>

definition firstRender :: JobProvider where
  "firstRender = \<lparr>savedJobs = [], jobs = [], filteredJobs = [],
                   loading = False, loadingMore = False, page = 1\<rparr>"

section \<open>Search, save and remove\<close>

text \<open>
  The callback of \<open>jobs.filter\<close> in \<open>searchJobs\<close>: some field of the six, lower-cased,
  includes the lower-cased text.
\<close>

definition searchFields :: "Job \<Rightarrow> jsstring list" where
  "searchFields job = [title job, companyName job, mainCategory job,
                       jobType job, workModel job, seniorityLevel job]"

definition matchesSearch :: "runtime \<Rightarrow> jsstring \<Rightarrow> Job \<Rightarrow> bool" where
  "matchesSearch rt lowerCaseText job =
     list_ex
       (\<lambda>field. includes_str (toLowerCase rt (or_default (Some field) [])) lowerCaseText)
       (searchFields job)"

text \<open>
  \<open>searchJobs\<close> as created by the render with scope \<open>c\<close>: it reads \<open>jobs\<close> from that
  scope and writes \<open>filteredJobs\<close> of the live state \<open>s\<close>. Called from the render
  that shows \<open>s\<close>, as the search box calls it, it is \<open>searchJobs rt s text s\<close>; the
  call that closes \<open>loadMoreJobs\<close> runs in the scope of the render that started the load.
\<close>

definition searchJobs ::
  "runtime \<Rightarrow> JobProvider \<Rightarrow> jsstring \<Rightarrow> JobProvider \<Rightarrow> JobProvider" where
  "searchJobs rt c text s =
     (if text = [] then s\<lparr>filteredJobs := jobs c\<rparr>
      else let lowerCaseText = toLowerCase rt text;
               filtered = filter (matchesSearch rt lowerCaseText) (jobs c)
           in s\<lparr>filteredJobs := filtered\<rparr>)"

text \<open>\<open>addJob\<close> and \<open>removeJob\<close> use functional updates of \<open>savedJobs\<close>.\<close>

definition addJob :: "Job \<Rightarrow> JobProvider \<Rightarrow> JobProvider" where
  "addJob job s =
     s\<lparr>savedJobs :=
        (let prevJobs = savedJobs s
         in if find (\<lambda>j. job_id j = job_id job) prevJobs \<noteq> None then prevJobs
            else prevJobs @ [job])\<rparr>"

definition removeJob :: "jsstring \<Rightarrow> JobProvider \<Rightarrow> JobProvider" where
  "removeJob jobId s =
     s\<lparr>savedJobs := filter (\<lambda>job. job_id job \<noteq> jobId) (savedJobs s)\<rparr>"

section \<open>Fetching a page\<close>

text \<open>
  What \<open>await axios.get(...)\<close> can produce: the promise rejects (network failure or an
  error status); it resolves with no \<open>data\<close> (reading \<open>response.data.jobs\<close> throws);
  \<open>response.data.jobs\<close> is not an array; or it is an array, whose elements are records
  or \<open>null\<close> (\<open>None\<close>: reading \<open>job.title\<close> throws).
\<close>

datatype response = Rejected | NoData | NotArray | JobsArray "RawJob option list"

datatype error = AxiosError | TypeError

text \<open>The callback of \<open>response.data.jobs.map\<close>, for the element at index \<open>i\<close>.\<close>

definition toJob :: "runtime \<Rightarrow> nat \<Rightarrow> RawJob \<Rightarrow> Job" where
  "toJob rt i job =
     \<lparr>job_id = uuid_v4 rt i,
      title = or_default (raw_title job) (str ''No Title''),
      companyName = or_default (raw_companyName job) (str ''Unknown Company''),
      mainCategory = or_default (raw_mainCategory job) (str ''Unknown''),
      pubDate = nullish (JNum (Number rt (raw_pubDate job))) JNull,
      expiryDate = nullish (JNum (Number rt (raw_expiryDate job))) JNull,
      companyLogo = or_default (raw_companyLogo job) [],
      jobType = or_default (raw_jobType job) (str ''Unknown''),
      workModel = or_default (raw_workModel job) (str ''Unknown''),
      seniorityLevel = or_default (raw_seniorityLevel job) (str ''Unspecified''),
      minSalary = nullish (JNum (Number rt (raw_minSalary job))) JNull,
      maxSalary = nullish (JNum (Number rt (raw_maxSalary job))) JNull\<rparr>"

fun mapJobs :: "runtime \<Rightarrow> nat \<Rightarrow> RawJob option list \<Rightarrow> error + Job list" where
  "mapJobs rt i [] = Inr []"
| "mapJobs rt i (None # rest) = Inl TypeError"
| "mapJobs rt i (Some job # rest) =
     (case mapJobs rt (Suc i) rest of
        Inl e \<Rightarrow> Inl e
      | Inr js \<Rightarrow> Inr (toJob rt i job # js))"

text \<open>
  The \<open>try\<close> block up to the state updates: an exception (\<open>Inl\<close>, caught and logged),
  no array (\<open>Inr None\<close>), or the list \<open>jobsWithIds\<close>.
\<close>

definition tryFetch :: "runtime \<Rightarrow> response \<Rightarrow> error + Job list option" where
  "tryFetch rt resp =
     (case resp of
        Rejected \<Rightarrow> Inl AxiosError
      | NoData \<Rightarrow> Inl TypeError
      | NotArray \<Rightarrow> Inr None
      | JobsArray raws \<Rightarrow>
          (case mapJobs rt 0 raws of Inl e \<Rightarrow> Inl e | Inr js \<Rightarrow> Inr (Some js)))"

text \<open>
  \<open>fetchJobs\<close> runs in two steps around its \<open>await\<close>: it raises a busy flag, and when
  the request settles it updates the lists (functional updates when appending) and
  lowers both flags.
\<close>

definition fetchJobs_begin :: "int \<Rightarrow> JobProvider \<Rightarrow> JobProvider" where
  "fetchJobs_begin pageNumber s =
     (if pageNumber = 1 then s\<lparr>loading := True\<rparr> else s\<lparr>loadingMore := True\<rparr>)"

definition fetchJobs_settle :: "runtime \<Rightarrow> bool \<Rightarrow> response \<Rightarrow> JobProvider \<Rightarrow> JobProvider" where
  "fetchJobs_settle rt append' resp s =
     (let s' = (case tryFetch rt resp of
                  Inl err \<Rightarrow> s
                | Inr None \<Rightarrow> s
                | Inr (Some jobsWithIds) \<Rightarrow>
                    if append'
                    then s\<lparr>jobs := jobs s @ jobsWithIds,
                           filteredJobs := filteredJobs s @ jobsWithIds\<rparr>
                    else s\<lparr>jobs := jobsWithIds, filteredJobs := jobsWithIds\<rparr>)
      in s'\<lparr>loading := False, loadingMore := False\<rparr>)"

text \<open>
  The arrow function passed to \<open>useCallback\<close>, in the scope \<open>c\<close> of the render that
  created it: the guard reads \<open>loading\<close> and \<open>loadingMore\<close> of that scope. Callers that
  omit the arguments get \<open>pageNumber = 1\<close> and \<open>append = false\<close>.
\<close>

definition fetchJobs_body ::
  "JobProvider \<Rightarrow> runtime \<Rightarrow> int \<Rightarrow> bool \<Rightarrow> response \<Rightarrow> JobProvider \<Rightarrow> JobProvider" where
  "fetchJobs_body c rt pageNumber append' resp s =
     (if loading c \<or> loadingMore c then s
      else fetchJobs_settle rt append' resp (fetchJobs_begin pageNumber s))"

text \<open>
  \<open>useCallback(..., [])\<close> has an empty dependency list: every render gets the function
  created by the first render, so \<open>fetchJobs\<close> is the body in the first render's scope.
\<close>

definition fetchJobs ::
  "runtime \<Rightarrow> int \<Rightarrow> bool \<Rightarrow> response \<Rightarrow> JobProvider \<Rightarrow> JobProvider" where
  "fetchJobs = fetchJobs_body firstRender"

text \<open>
  \<open>loadMoreJobs\<close> as created by the render with scope \<open>c\<close>; the argument defaults to
  \<open>page + 1\<close> of that scope. After the fetch it calls \<open>searchJobs\<close> of its own render.
\<close>

definition loadMoreJobs_begin :: "int \<Rightarrow> JobProvider \<Rightarrow> JobProvider" where
  "loadMoreJobs_begin pageNumber s = s\<lparr>loadingMore := True, page := pageNumber\<rparr>"

definition loadMoreJobs ::
  "JobProvider \<Rightarrow> runtime \<Rightarrow> int option \<Rightarrow> response \<Rightarrow> JobProvider \<Rightarrow> JobProvider" where
  "loadMoreJobs c rt arg resp s =
     (let pageNumber = (case arg of None \<Rightarrow> page c + 1 | Some n \<Rightarrow> n)
      in if loadingMore c \<or> loading c then s
         else searchJobs rt c []
                (fetchJobs rt pageNumber True resp (loadMoreJobs_begin pageNumber s)))"

section \<open>Reachable states\<close>

text \<open>
  The states of the store: from the initial one, by the steps that run without
  interruption. A fetch in flight can be overtaken by other steps, so its two halves are
  separate steps, as is the opening of \<open>loadMoreJobs\<close>; \<open>searchJobs\<close> may run in the
  scope of an earlier render, taken here as any reachable state. The whole operations
  \<open>fetchJobs\<close> and \<open>loadMoreJobs\<close> are sequences of these steps.
\<close>

inductive reachable :: "JobProvider \<Rightarrow> bool" where
  init: "reachable firstRender"
| add: "reachable s \<Longrightarrow> reachable (addJob job s)"
| remove: "reachable s \<Longrightarrow> reachable (removeJob jobId s)"
| search: "reachable c \<Longrightarrow> reachable s \<Longrightarrow> reachable (searchJobs rt c text s)"
| fetch_begin: "reachable s \<Longrightarrow> reachable (fetchJobs_begin pageNumber s)"
| fetch_settle: "reachable s \<Longrightarrow> reachable (fetchJobs_settle rt append' resp s)"
| loadMore_begin: "reachable s \<Longrightarrow> reachable (loadMoreJobs_begin pageNumber s)"

section \<open>Expiry on the application form\<close>

fun js_minus :: "jsnum \<Rightarrow> jsnum \<Rightarrow> jsnum" where
  "js_minus (Fin a) (Fin b) = Fin (a - b)"
| "js_minus a b = NaN"

fun js_less :: "jsnum \<Rightarrow> jsnum \<Rightarrow> bool" where
  "js_less (Fin a) (Fin b) = (a < b)"
| "js_less a b = False"

text \<open>
  The list screens only tell whether a posting has expired (\<open>isExpired\<close>); the
  classification as expiring soon is \<open>isExpiryNear\<close> of the application form, with a
  threshold of 432000 seconds (5 days). Here \<open>job\<close> is the posting of the form and
  \<open>now\<close> is \<open>Date.now()\<close>, in milliseconds; the form shows "Expires soon!" when the
  result is truthy.
\<close>

definition isExpiryNear :: "runtime \<Rightarrow> int \<Rightarrow> Job \<Rightarrow> bool" where
  "isExpiryNear rt now job =
     (let today = Fin (real_of_int now / 1000)
      in truthy (expiryDate job) \<and>
         js_less (js_minus (Number rt (expiryDate job)) today) (Fin 432000))"

section \<open>The search rule as the specification words it\<close>

text \<open>
  The specification describes the search as a substring test on the concatenation of
  the six fields. These two definitions follow that wording, for comparison with
  \<open>searchJobs\<close>.
\<close>

definition spec_concatenation :: "Job \<Rightarrow> jsstring" where
  "spec_concatenation job = concat (searchFields job)"

definition spec_search :: "runtime \<Rightarrow> jsstring \<Rightarrow> Job list \<Rightarrow> Job list" where
  "spec_search rt t allJobs =
     filter (\<lambda>job. includes_str (toLowerCase rt (spec_concatenation job)) (toLowerCase rt t))
       allJobs"

section \<open>Sample data\<close>

text \<open>
  A runtime, a posting, a raw record with every field absent (the JSON object \<open>{}\<close>)
  and a state with one loaded posting, for the concrete instances below. No sample has a
  string in a numeric field, so the sample \<open>StringToNumber\<close> is never consulted; all
  sample text is ASCII, where \<open>toLowerCase\<close> of JavaScript turns \<open>A\<close> to \<open>Z\<close> (65 to
  90) into \<open>a\<close> to \<open>z\<close> and leaves the rest, as the sample runtime does.
\<close>

definition sampleRuntime :: runtime where
  "sampleRuntime =
     \<lparr>uuid_v4 = (\<lambda>i. str ''uuid-'' @ replicate i 120),
      StringToNumber = (\<lambda>s. NaN),
      toLowerCase = map (\<lambda>u. if 65 \<le> u \<and> u \<le> 90 then u + 32 else u)\<rparr>"

definition sampleJob :: Job where
  "sampleJob = \<lparr>job_id = str ''job-1'', title = str ''Ab'', companyName = str ''Cd'',
     mainCategory = str ''Sales'', pubDate = JNum (Fin 1700000000),
     expiryDate = JNum (Fin 1700172800), companyLogo = [], jobType = str ''Full Time'',
     workModel = str ''Remote'', seniorityLevel = str ''Senior'',
     minSalary = JNum (Fin 1000), maxSalary = JNum (Fin 2000)\<rparr>"

definition emptyRaw :: RawJob where
  "emptyRaw = \<lparr>raw_title = None, raw_mainCategory = None, raw_pubDate = JUndefined,
     raw_expiryDate = JUndefined, raw_companyName = None, raw_jobType = None,
     raw_workModel = None, raw_seniorityLevel = None, raw_minSalary = JUndefined,
     raw_maxSalary = JUndefined, raw_companyLogo = None\<rparr>"

definition loadedState :: JobProvider where
  "loadedState = firstRender\<lparr>jobs := [sampleJob], filteredJobs := [sampleJob]\<rparr>"

section \<open>Auxiliary facts\<close>

lemma includes_str_sublist: "includes_str s t \<longleftrightarrow> sublist t s"
  by (induction s) (auto simp: sublist_Cons_right)

lemma matchesSearch_sublist:
  "matchesSearch rt l =
     (\<lambda>job. \<exists>field \<in> set (searchFields job). sublist l (toLowerCase rt field))"
  unfolding matchesSearch_def list_ex_iff by (simp add: includes_str_sublist)

lemma searchJobs_filteredJobs:
  "filteredJobs (searchJobs rt c t s) =
     (if t = [] then jobs c
      else filter (\<lambda>job. \<exists>field \<in> set (searchFields job).
                     sublist (toLowerCase rt t) (toLowerCase rt field)) (jobs c))"
  by (simp add: searchJobs_def Let_def matchesSearch_sublist)

lemma searchJobs_others:
  "jobs (searchJobs rt c t s) = jobs s" "savedJobs (searchJobs rt c t s) = savedJobs s"
  "page (searchJobs rt c t s) = page s" "loading (searchJobs rt c t s) = loading s"
  "loadingMore (searchJobs rt c t s) = loadingMore s"
  by (simp_all add: searchJobs_def Let_def)

text \<open>
  Called from the render that shows the state, the search for the empty string leaves
  \<open>filteredJobs\<close> equal to \<open>jobs\<close>.
\<close>

lemma searchJobs_empty_current:
  "filteredJobs (searchJobs rt s [] s) = jobs (searchJobs rt s [] s)"
  by (simp add: searchJobs_def)

lemma find_id_None: "find (\<lambda>j. job_id j = i) xs = None \<longleftrightarrow> i \<notin> job_id ` set xs"
  by (auto simp: find_None_iff)

lemma addJob_savedJobs:
  "savedJobs (addJob j s) =
     (if job_id j \<in> job_id ` set (savedJobs s) then savedJobs s else savedJobs s @ [j])"
  by (simp add: addJob_def Let_def find_id_None)

lemma addJob_addJob: "addJob j (addJob j s) = addJob j s"
  by (cases "job_id j \<in> job_id ` set (savedJobs s)")
    (simp_all add: addJob_def Let_def find_id_None)

lemma count_list_distinct: "distinct xs \<Longrightarrow> count_list xs x = (if x \<in> set xs then 1 else 0)"
  by (induction xs) auto

lemma addJob_distinct:
  "distinct (map job_id (savedJobs s)) \<Longrightarrow> distinct (map job_id (savedJobs (addJob j s)))"
  by (auto simp: addJob_savedJobs)

lemma removeJob_distinct:
  "distinct (map job_id (savedJobs s)) \<Longrightarrow>
   distinct (map job_id (savedJobs (removeJob i s)))"
  by (simp add: removeJob_def distinct_map_filter)

lemma mapJobs_null: "None \<in> set raws \<Longrightarrow> mapJobs rt i raws = Inl TypeError"
proof (induction raws arbitrary: i)
  case Nil
  then show ?case by simp
next
  case (Cons r raws)
  show ?case
  proof (cases r)
    case None
    then show ?thesis by simp
  next
    case (Some job)
    with Cons.prems have "None \<in> set raws" by simp
    then have "mapJobs rt (Suc i) raws = Inl TypeError" by (rule Cons.IH)
    with Some show ?thesis by simp
  qed
qed

lemma mapJobs_records:
  "None \<notin> set raws \<Longrightarrow> \<exists>js. mapJobs rt i raws = Inr js \<and> length js = length raws"
proof (induction raws arbitrary: i)
  case Nil
  then show ?case by simp
next
  case (Cons r raws)
  then obtain job where r: "r = Some job" by (cases r) auto
  from Cons.prems have "None \<notin> set raws" by simp
  then obtain js where "mapJobs rt (Suc i) raws = Inr js" "length js = length raws"
    using Cons.IH by blast
  with r show ?case by simp
qed

lemma tryFetch_failure:
  assumes "resp = Rejected \<or> resp = NoData \<or> resp = NotArray \<or>
           (\<exists>raws. resp = JobsArray raws \<and> None \<in> set raws)"
  shows "tryFetch rt resp = Inr None \<or> (\<exists>e. tryFetch rt resp = Inl e)"
  using assms by (auto simp: tryFetch_def mapJobs_null)

lemma tryFetch_success:
  "None \<notin> set raws \<Longrightarrow>
   \<exists>js. tryFetch rt (JobsArray raws) = Inr (Some js) \<and> length js = length raws"
  using mapJobs_records [of raws rt 0] by (auto simp: tryFetch_def)

lemma savedJobs_steps:
  "savedJobs (fetchJobs_begin pageNumber s) = savedJobs s"
  "savedJobs (fetchJobs_settle rt append' resp s) = savedJobs s"
  "savedJobs (loadMoreJobs_begin pageNumber s) = savedJobs s"
  by (simp_all add: fetchJobs_begin_def fetchJobs_settle_def loadMoreJobs_begin_def Let_def
      split: sum.splits option.splits)

lemma savedJobs_fetchJobs: "savedJobs (fetchJobs rt pageNumber append' resp s) = savedJobs s"
  by (simp add: fetchJobs_def fetchJobs_body_def savedJobs_steps)

lemma savedJobs_loadMoreJobs: "savedJobs (loadMoreJobs c rt arg resp s) = savedJobs s"
  by (simp add: loadMoreJobs_def Let_def searchJobs_others savedJobs_fetchJobs savedJobs_steps)

text \<open>The whole operations stay within the reachable states.\<close>

lemma reachable_fetchJobs:
  "reachable s \<Longrightarrow> reachable (fetchJobs rt pageNumber append' resp s)"
  by (simp add: fetchJobs_def fetchJobs_body_def firstRender_def
      reachable.fetch_begin reachable.fetch_settle)

lemma reachable_loadMoreJobs:
  "reachable c \<Longrightarrow> reachable s \<Longrightarrow> reachable (loadMoreJobs c rt arg resp s)"
  by (simp add: loadMoreJobs_def Let_def reachable_fetchJobs reachable.search
      reachable.loadMore_begin)

lemma reachable_distinct: "reachable s \<Longrightarrow> distinct (map job_id (savedJobs s))"
proof (induction rule: reachable.induct)
  case init
  show ?case by (simp add: firstRender_def)
next
  case (add s job)
  then show ?case by (simp add: addJob_distinct)
next
  case (remove s jobId)
  then show ?case by (simp add: removeJob_distinct)
next
  case (search c s rt t)
  then show ?case by (simp add: searchJobs_others)
next
  case (fetch_begin s pageNumber)
  then show ?case by (simp add: savedJobs_steps)
next
  case (fetch_settle s rt append' resp)
  then show ?case by (simp add: savedJobs_steps)
next
  case (loadMore_begin s pageNumber)
  then show ?case by (simp add: savedJobs_steps)
qed

section \<open>Search\<close>

text \<open>
  Claim C1, as the code has it: called from the render that shows the state \<open>s\<close>, as
  the search box calls it, \<open>searchJobs t\<close> sets \<open>filteredJobs\<close> to the postings of
  \<open>jobs\<close>, in order, for which at least one of the six fields (title, company name,
  category, job type, work model, seniority level), taken on its own and lower-cased,
  contains the lower-cased \<open>t\<close> as a contiguous substring; for the empty text
  \<open>filteredJobs\<close> becomes \<open>jobs\<close>; and \<open>jobs\<close> is left as it was. Whichever render
  \<open>c\<close> created the function, the list it filters is the \<open>jobs\<close> of that render.
\<close>

theorem searchJobs_by_field:
  "filteredJobs (searchJobs rt s t s) =
     (if t = [] then jobs s
      else filter (\<lambda>job. \<exists>field \<in> set (searchFields job).
                     sublist (toLowerCase rt t) (toLowerCase rt field)) (jobs s))
   \<and> jobs (searchJobs rt s t s) = jobs s
   \<and> filteredJobs (searchJobs rt c t s) =
     (if t = [] then jobs c
      else filter (\<lambda>job. \<exists>field \<in> set (searchFields job).
                     sublist (toLowerCase rt t) (toLowerCase rt field)) (jobs c))
   \<and> jobs (searchJobs rt c t s) = jobs s"
  by (simp add: searchJobs_filteredJobs searchJobs_others)

text \<open>
  Instances: with the one posting \<open>sampleJob\<close> loaded and shown, \<open>sal\<close> finds it (in
  the category \<open>Sales\<close>), \<open>bC\<close> finds nothing, and the empty text shows it; the function
  of the first render, which holds no posting, finds nothing for the empty text.
\<close>

theorem searchJobs_by_field_witness:
  "filteredJobs (searchJobs sampleRuntime loadedState (str ''sal'') loadedState) = [sampleJob]
   \<and> filteredJobs (searchJobs sampleRuntime loadedState (str ''bC'') loadedState) = []
   \<and> filteredJobs (searchJobs sampleRuntime loadedState [] loadedState) = [sampleJob]
   \<and> jobs (searchJobs sampleRuntime loadedState [] loadedState) = [sampleJob]
   \<and> filteredJobs (searchJobs sampleRuntime firstRender [] loadedState) = []
   \<and> jobs (searchJobs sampleRuntime firstRender [] loadedState) = [sampleJob]"
proof -
  have sal: "filteredJobs (searchJobs sampleRuntime loadedState (str ''sal'') loadedState)
      = [sampleJob]"
    by code_simp
  have bc: "filteredJobs (searchJobs sampleRuntime loadedState (str ''bC'') loadedState) = []"
    by code_simp
  have loaded: "jobs loadedState = [sampleJob]"
    by (simp add: loadedState_def)
  have first: "jobs firstRender = []"
    by (simp add: firstRender_def)
  show ?thesis
    using searchJobs_by_field [of sampleRuntime loadedState "[]" firstRender]
    by (simp add: sal bc loaded first)
qed

text \<open>
  Claim C1 as the specification words it fails: the title \<open>Ab\<close> followed by the company
  name \<open>Cd\<close> contains \<open>bc\<close> across the field boundary, so the concatenation matches
  the search for \<open>bC\<close>, but no single field does and \<open>searchJobs\<close> drops the posting.
\<close>

theorem searchJobs_concatenation_counterexample:
  "filteredJobs (searchJobs sampleRuntime loadedState (str ''bC'') loadedState)
     \<noteq> spec_search sampleRuntime (str ''bC'') (jobs loadedState)"
proof -
  have "filteredJobs (searchJobs sampleRuntime loadedState (str ''bC'') loadedState) = []"
    by code_simp
  moreover have "spec_search sampleRuntime (str ''bC'') (jobs loadedState) = [sampleJob]"
    by code_simp
  ultimately show ?thesis by simp
qed

text \<open>
  Claim C7 says that every search for the empty string leaves \<open>filteredJobs\<close> equal to
  \<open>jobs\<close>. The search that closes \<open>loadMoreJobs\<close> does not: started from the state
  with one loaded posting, once the fetch of page 2 has appended one posting, the
  \<open>searchJobs('')\<close> of the render that started the load sets \<open>filteredJobs\<close> to the one
  old posting while \<open>jobs\<close> holds two.
\<close>

theorem searchJobs_empty_stale:
  "jobs (searchJobs rt loadedState []
          (fetchJobs rt 2 True (JobsArray [Some emptyRaw]) (loadMoreJobs_begin 2 loadedState)))
     = [sampleJob, toJob rt 0 emptyRaw]
   \<and> filteredJobs (searchJobs rt loadedState []
          (fetchJobs rt 2 True (JobsArray [Some emptyRaw]) (loadMoreJobs_begin 2 loadedState)))
     = [sampleJob]"
  by (simp add: searchJobs_def loadMoreJobs_begin_def fetchJobs_def fetchJobs_body_def
      fetchJobs_settle_def fetchJobs_begin_def loadedState_def firstRender_def tryFetch_def)

text \<open>
  Claim C10: for every search text (empty or not), whichever render created the
  function, \<open>searchJobs\<close> changes nothing but \<open>filteredJobs\<close>: \<open>jobs\<close>, \<open>savedJobs\<close>,
  \<open>page\<close>, \<open>loading\<close> and \<open>loadingMore\<close> keep their values.
\<close>

theorem searchJobs_frame:
  "jobs (searchJobs rt c t s) = jobs s \<and> savedJobs (searchJobs rt c t s) = savedJobs s
   \<and> page (searchJobs rt c t s) = page s \<and> loading (searchJobs rt c t s) = loading s
   \<and> loadingMore (searchJobs rt c t s) = loadingMore s
   \<and> searchJobs rt c t s = s\<lparr>filteredJobs := filteredJobs (searchJobs rt c t s)\<rparr>"
  by (simp add: searchJobs_def Let_def)

section \<open>Saved jobs\<close>

text \<open>
  Claim C8: \<open>addJob j\<close> leaves \<open>savedJobs\<close> unchanged when a posting with the identifier
  of \<open>j\<close> is already saved, and appends \<open>j\<close> at the end otherwise; a second \<open>addJob j\<close>
  changes nothing; and when the saved identifiers are pairwise distinct (as they are in
  every reachable state), \<open>savedJobs\<close> holds the identifier of \<open>j\<close> exactly once after
  \<open>addJob j\<close> twice.
\<close>

theorem addJob_idempotent:
  "savedJobs (addJob j s) =
     (if job_id j \<in> job_id ` set (savedJobs s) then savedJobs s else savedJobs s @ [j])
   \<and> addJob j (addJob j s) = addJob j s
   \<and> (distinct (map job_id (savedJobs s)) \<longrightarrow>
        count_list (map job_id (savedJobs (addJob j (addJob j s)))) (job_id j) = 1)"
proof (intro conjI impI)
  show "savedJobs (addJob j s) =
     (if job_id j \<in> job_id ` set (savedJobs s) then savedJobs s else savedJobs s @ [j])"
    by (rule addJob_savedJobs)
  show "addJob j (addJob j s) = addJob j s"
    by (rule addJob_addJob)
  assume "distinct (map job_id (savedJobs s))"
  then have "distinct (map job_id (savedJobs (addJob j s)))"
    by (rule addJob_distinct)
  moreover have "job_id j \<in> set (map job_id (savedJobs (addJob j s)))"
    by (auto simp: addJob_savedJobs)
  ultimately show "count_list (map job_id (savedJobs (addJob j (addJob j s)))) (job_id j) = 1"
    by (simp add: addJob_addJob count_list_distinct)
qed

theorem addJob_idempotent_witness:
  "savedJobs (addJob sampleJob firstRender) = [sampleJob]
   \<and> savedJobs (addJob sampleJob (addJob sampleJob firstRender)) = [sampleJob]
   \<and> distinct (map job_id (savedJobs firstRender))
   \<and> count_list (map job_id (savedJobs (addJob sampleJob (addJob sampleJob firstRender))))
        (job_id sampleJob) = 1"
  using addJob_idempotent [of sampleJob firstRender]
  by (simp add: firstRender_def)

text \<open>
  Claim C9: in every reachable state the identifiers of the postings in \<open>savedJobs\<close> are
  pairwise distinct; \<open>addJob\<close> and \<open>removeJob\<close> keep them so, and \<open>fetchJobs\<close>,
  \<open>loadMoreJobs\<close> and \<open>searchJobs\<close> do not change \<open>savedJobs\<close> at all.
\<close>

theorem savedJobs_invariant:
  assumes "reachable s"
  shows "distinct (map job_id (savedJobs s))
    \<and> distinct (map job_id (savedJobs (addJob job s)))
    \<and> distinct (map job_id (savedJobs (removeJob jobId s)))
    \<and> savedJobs (fetchJobs rt pageNumber append' resp s) = savedJobs s
    \<and> savedJobs (loadMoreJobs c rt arg resp s) = savedJobs s
    \<and> savedJobs (searchJobs rt c t s) = savedJobs s"
  using reachable_distinct [OF assms]
  by (simp add: addJob_distinct removeJob_distinct savedJobs_fetchJobs savedJobs_loadMoreJobs
      searchJobs_others)

theorem savedJobs_invariant_witness:
  "reachable (addJob sampleJob firstRender)
    \<and> distinct (map job_id (savedJobs (addJob sampleJob firstRender)))
    \<and> distinct (map job_id (savedJobs (addJob sampleJob (addJob sampleJob firstRender))))
    \<and> distinct (map job_id (savedJobs (removeJob (str ''job-1'') (addJob sampleJob firstRender))))
    \<and> savedJobs (fetchJobs sampleRuntime 1 False (JobsArray [Some emptyRaw])
          (addJob sampleJob firstRender)) = [sampleJob]
    \<and> savedJobs (loadMoreJobs firstRender sampleRuntime None (JobsArray [Some emptyRaw])
          (addJob sampleJob firstRender)) = [sampleJob]
    \<and> savedJobs (searchJobs sampleRuntime firstRender (str ''x'') (addJob sampleJob firstRender))
        = [sampleJob]"
proof -
  have r: "reachable (addJob sampleJob firstRender)"
    by (rule reachable.add [OF reachable.init])
  have sv: "savedJobs (addJob sampleJob firstRender) = [sampleJob]"
    by (simp add: addJob_def firstRender_def)
  show ?thesis
    using r savedJobs_invariant [OF r, of sampleJob "str ''job-1''" sampleRuntime 1 False
        "JobsArray [Some emptyRaw]" firstRender None "str ''x''"]
    by (simp add: sv)
qed

section \<open>Fetching\<close>

text \<open>
  Whatever the raw value, \<open>Number(...)\<close> yields a number, so \<open>?? null\<close> never applies:
  the four numeric fields of a constructed posting always hold a number, \<open>NaN\<close> included.
\<close>

lemma toJob_numeric_fields:
  "pubDate (toJob rt i job) = JNum (Number rt (raw_pubDate job))"
  "expiryDate (toJob rt i job) = JNum (Number rt (raw_expiryDate job))"
  "minSalary (toJob rt i job) = JNum (Number rt (raw_minSalary job))"
  "maxSalary (toJob rt i job) = JNum (Number rt (raw_maxSalary job))"
  by (simp_all add: toJob_def)

text \<open>
  The guard of \<open>fetchJobs\<close> reads the flags of the first render, which are both false:
  in every state the function goes on to the request.
\<close>

lemma fetchJobs_unguarded:
  "fetchJobs rt pageNumber append' resp s =
     fetchJobs_settle rt append' resp (fetchJobs_begin pageNumber s)"
  by (simp add: fetchJobs_def fetchJobs_body_def firstRender_def)

text \<open>In a scope that passes the guard, the body lowers both flags on every path.\<close>

lemma fetchJobs_body_flags:
  "\<not> loading c \<Longrightarrow> \<not> loadingMore c \<Longrightarrow>
   \<not> loading (fetchJobs_body c rt pageNumber append' resp s) \<and>
   \<not> loadingMore (fetchJobs_body c rt pageNumber append' resp s)"
  by (simp add: fetchJobs_body_def fetchJobs_settle_def Let_def)

text \<open>
  Claim C2 says that an absent or invalid numeric field is stored as \<open>null\<close>. The code
  stores \<open>NaN\<close>: fetching the single record \<open>{}\<close> (every field absent) into the initial
  state yields one posting whose \<open>pubDate\<close>, \<open>expiryDate\<close>, \<open>minSalary\<close> and
  \<open>maxSalary\<close> are all \<open>NaN\<close>, not \<open>null\<close>.
\<close>

theorem fetchJobs_absent_numeric_fields:
  "jobs (fetchJobs rt 1 False (JobsArray [Some emptyRaw]) firstRender) =
     [\<lparr>job_id = uuid_v4 rt 0, title = str ''No Title'',
       companyName = str ''Unknown Company'', mainCategory = str ''Unknown'',
       pubDate = JNum NaN, expiryDate = JNum NaN, companyLogo = [],
       jobType = str ''Unknown'', workModel = str ''Unknown'',
       seniorityLevel = str ''Unspecified'', minSalary = JNum NaN, maxSalary = JNum NaN\<rparr>]"
  by (simp add: fetchJobs_def fetchJobs_body_def fetchJobs_settle_def fetchJobs_begin_def
      firstRender_def tryFetch_def toJob_def emptyRaw_def)

text \<open>
  Claim C3 says that \<open>fetchJobs\<close> returns at once when a busy flag is set. The code
  does not: in the state where the first fetch is in flight (\<open>loading\<close> is true, no
  posting loaded yet), a second \<open>fetchJobs(1, false)\<close> answered with one record replaces
  \<open>jobs\<close> and \<open>filteredJobs\<close> by that posting.
\<close>

theorem fetchJobs_ignores_busy_flags:
  "loading (fetchJobs_begin 1 firstRender)
   \<and> jobs (fetchJobs_begin 1 firstRender) = []
   \<and> jobs (fetchJobs rt 1 False (JobsArray [Some emptyRaw]) (fetchJobs_begin 1 firstRender))
       = [toJob rt 0 emptyRaw]
   \<and> filteredJobs
        (fetchJobs rt 1 False (JobsArray [Some emptyRaw]) (fetchJobs_begin 1 firstRender))
       = [toJob rt 0 emptyRaw]"
  by (simp add: fetchJobs_def fetchJobs_body_def fetchJobs_settle_def fetchJobs_begin_def
      firstRender_def tryFetch_def)

text \<open>
  Claim C4: \<open>fetchJobs\<close> ends with both busy flags false, whatever the outcome of the
  request; and when the fetch fails (the request is rejected, the response has no data,
  its \<open>jobs\<close> field is not an array, or an element of the array is \<open>null\<close>), \<open>jobs\<close>,
  \<open>filteredJobs\<close>, \<open>savedJobs\<close> and \<open>page\<close> are what they were.
\<close>

theorem fetchJobs_failure:
  "loading (fetchJobs rt pageNumber append' resp s) = False
   \<and> loadingMore (fetchJobs rt pageNumber append' resp s) = False
   \<and> (resp = Rejected \<or> resp = NoData \<or> resp = NotArray \<or>
        (\<exists>raws. resp = JobsArray raws \<and> None \<in> set raws) \<longrightarrow>
      jobs (fetchJobs rt pageNumber append' resp s) = jobs s
      \<and> filteredJobs (fetchJobs rt pageNumber append' resp s) = filteredJobs s
      \<and> savedJobs (fetchJobs rt pageNumber append' resp s) = savedJobs s
      \<and> page (fetchJobs rt pageNumber append' resp s) = page s)"
proof (intro conjI impI)
  show "loading (fetchJobs rt pageNumber append' resp s) = False"
    by (simp add: fetchJobs_def fetchJobs_body_def fetchJobs_settle_def firstRender_def Let_def)
  show "loadingMore (fetchJobs rt pageNumber append' resp s) = False"
    by (simp add: fetchJobs_def fetchJobs_body_def fetchJobs_settle_def firstRender_def Let_def)
next
  assume "resp = Rejected \<or> resp = NoData \<or> resp = NotArray \<or>
        (\<exists>raws. resp = JobsArray raws \<and> None \<in> set raws)"
  then have f: "tryFetch rt resp = Inr None \<or> (\<exists>e. tryFetch rt resp = Inl e)"
    by (rule tryFetch_failure)
  have settle: "fetchJobs_settle rt append' resp u = u\<lparr>loading := False, loadingMore := False\<rparr>"
    for u
    using f by (auto simp: fetchJobs_settle_def)
  have eq: "fetchJobs rt pageNumber append' resp s =
      (fetchJobs_begin pageNumber s)\<lparr>loading := False, loadingMore := False\<rparr>"
    by (simp add: fetchJobs_def fetchJobs_body_def firstRender_def settle)
  show "jobs (fetchJobs rt pageNumber append' resp s) = jobs s"
    by (simp add: eq fetchJobs_begin_def)
  show "filteredJobs (fetchJobs rt pageNumber append' resp s) = filteredJobs s"
    by (simp add: eq fetchJobs_begin_def)
  show "savedJobs (fetchJobs rt pageNumber append' resp s) = savedJobs s"
    by (simp add: eq fetchJobs_begin_def)
  show "page (fetchJobs rt pageNumber append' resp s) = page s"
    by (simp add: eq fetchJobs_begin_def)
qed

text \<open>
  An instance: appending page 2 to the state with one loaded posting, when the second
  element of the returned array is \<open>null\<close>.
\<close>

theorem fetchJobs_failure_witness:
  "loading (fetchJobs sampleRuntime 2 True (JobsArray [Some emptyRaw, None]) loadedState)
      = False
   \<and> loadingMore (fetchJobs sampleRuntime 2 True (JobsArray [Some emptyRaw, None]) loadedState)
      = False
   \<and> None \<in> set [Some emptyRaw, None]
   \<and> jobs (fetchJobs sampleRuntime 2 True (JobsArray [Some emptyRaw, None]) loadedState)
      = [sampleJob]
   \<and> filteredJobs (fetchJobs sampleRuntime 2 True (JobsArray [Some emptyRaw, None]) loadedState)
      = [sampleJob]
   \<and> savedJobs (fetchJobs sampleRuntime 2 True (JobsArray [Some emptyRaw, None]) loadedState)
      = []
   \<and> page (fetchJobs sampleRuntime 2 True (JobsArray [Some emptyRaw, None]) loadedState) = 1"
  using fetchJobs_failure [of sampleRuntime 2 True "JobsArray [Some emptyRaw, None]" loadedState]
  by (simp add: loadedState_def firstRender_def)

section \<open>Loading more\<close>

text \<open>
  \<open>loadMoreJobs\<close> called without argument from the render that shows a non-busy state
  \<open>s\<close>, when the fetch succeeds with the postings \<open>new\<close>: \<open>page\<close> advances by one and
  \<open>new\<close> is appended to \<open>jobs\<close>, but the closing \<open>searchJobs('')\<close> belongs to the render
  of \<open>s\<close> and writes the \<open>jobs\<close> of before the fetch into \<open>filteredJobs\<close>.
\<close>

lemma loadMoreJobs_success:
  assumes "\<not> loading s" "\<not> loadingMore s" "tryFetch rt resp = Inr (Some new)"
  shows "loadMoreJobs s rt None resp s =
           s\<lparr>page := page s + 1, jobs := jobs s @ new, filteredJobs := jobs s\<rparr>"
  using assms
  by (cases s) (simp add: loadMoreJobs_def loadMoreJobs_begin_def searchJobs_def fetchJobs_def
      fetchJobs_body_def fetchJobs_settle_def fetchJobs_begin_def firstRender_def Let_def)

text \<open>
  Claim C5 says that after \<open>loadMore()\<close> the filtered list equals the whole list. The
  code advances \<open>page\<close> and appends the fetched postings to \<open>jobs\<close>, but leaves
  \<open>filteredJobs\<close> without them: from the non-busy state with one loaded posting and page
  1, a load that returns one record ends with page 2, two postings in \<open>jobs\<close> and only
  the old one in \<open>filteredJobs\<close>.
\<close>

theorem loadMoreJobs_filteredJobs_stale:
  "\<not> loading loadedState \<and> \<not> loadingMore loadedState
   \<and> page (loadMoreJobs loadedState rt None (JobsArray [Some emptyRaw]) loadedState) = 2
   \<and> jobs (loadMoreJobs loadedState rt None (JobsArray [Some emptyRaw]) loadedState)
       = [sampleJob, toJob rt 0 emptyRaw]
   \<and> filteredJobs (loadMoreJobs loadedState rt None (JobsArray [Some emptyRaw]) loadedState)
       = [sampleJob]"
  by (simp add: loadMoreJobs_def loadMoreJobs_begin_def searchJobs_def fetchJobs_def
      fetchJobs_body_def fetchJobs_settle_def fetchJobs_begin_def loadedState_def
      firstRender_def tryFetch_def)

section \<open>Expiring soon\<close>

text \<open>
  Claim C6: when the clock is at or after the epoch, a posting whose \<open>expiryDate\<close> is
  2 days (in seconds) after the current time is classified as expiring soon by the
  application form, and one whose \<open>expiryDate\<close> is 10 days after it is not.
\<close>

theorem isExpiryNear_days:
  assumes "0 \<le> now"
    and "expiryDate job2 = JNum (Fin (real_of_int now / 1000 + 2 * 86400))"
    and "expiryDate job10 = JNum (Fin (real_of_int now / 1000 + 10 * 86400))"
  shows "isExpiryNear rt now job2 \<and> \<not> isExpiryNear rt now job10"
  using assms by (simp add: isExpiryNear_def)

theorem isExpiryNear_days_witness:
  "(0::int) \<le> 1700000000000
   \<and> expiryDate sampleJob = JNum (Fin (real_of_int 1700000000000 / 1000 + 2 * 86400))
   \<and> expiryDate (sampleJob\<lparr>expiryDate := JNum (Fin 1700864000)\<rparr>)
       = JNum (Fin (real_of_int 1700000000000 / 1000 + 10 * 86400))
   \<and> isExpiryNear sampleRuntime 1700000000000 sampleJob
   \<and> \<not> isExpiryNear sampleRuntime 1700000000000
         (sampleJob\<lparr>expiryDate := JNum (Fin 1700864000)\<rparr>)"
proof -
  have a: "(0::int) \<le> 1700000000000" by simp
  have b: "expiryDate sampleJob = JNum (Fin (real_of_int 1700000000000 / 1000 + 2 * 86400))"
    by (simp add: sampleJob_def)
  have c: "expiryDate (sampleJob\<lparr>expiryDate := JNum (Fin 1700864000)\<rparr>)
       = JNum (Fin (real_of_int 1700000000000 / 1000 + 10 * 86400))"
    by simp
  show ?thesis
    using a b c isExpiryNear_days [OF a b c, of sampleRuntime] by simp
qed

end
